theory Spec2Isabelle
  imports Main "HOL-Library.Word"
begin

section \<open>JavaScript values\<close>

text \<open>
  The module \<^verbatim>\<open>static/js/chat-history.js\<close> is dynamically typed, so the
  embedding has one type of JavaScript values. A string is the list of its UTF-16
  code units, which is what \<^verbatim>\<open>String.prototype.slice\<close> counts. Numbers are the
  integral ones (identifiers and counts); \<^verbatim>\<open>NaN\<close> and fractions are outside
  the model. Objects carry data only (as after \<^verbatim>\<open>JSON.parse\<close>), never functions.
\<close>

type_synonym jsstr = "16 word list"

definition asc :: "string \<Rightarrow> jsstr" where
  "asc s = map of_char s"

datatype jsval =
    Undefined
  | Null
  | Bool bool
  | Num int
  | Str jsstr
  | Arr "jsval list"
  | Obj "(string \<times> jsval) list"

datatype js_error = TypeError

text \<open>\<^verbatim>\<open>Boolean(v)\<close>: the test behind \<^verbatim>\<open>if (v)\<close>, \<^verbatim>\<open>!v\<close>,
  \<^verbatim>\<open>a || b\<close> and \<^verbatim>\<open>c ? x : y\<close>.\<close>

fun truthy :: "jsval \<Rightarrow> bool" where
  "truthy Undefined = False"
| "truthy Null = False"
| "truthy (Bool b) = b"
| "truthy (Num n) = (n \<noteq> 0)"
| "truthy (Str s) = (s \<noteq> [])"
| "truthy (Arr xs) = True"
| "truthy (Obj fs) = True"

text \<open>\<^verbatim>\<open>a || b\<close> and \<^verbatim>\<open>a ?? b\<close> on values.\<close>

definition js_or :: "jsval \<Rightarrow> jsval \<Rightarrow> jsval" where
  "js_or a b = (if truthy a then a else b)"

definition nullish :: "jsval \<Rightarrow> bool" where
  "nullish v = (v = Undefined \<or> v = Null)"

definition js_coalesce :: "jsval \<Rightarrow> jsval \<Rightarrow> jsval" where
  "js_coalesce a b = (if nullish a then b else a)"

text \<open>The decimal digits of a natural number, most significant first.\<close>

fun digits :: "nat \<Rightarrow> jsstr" where
  "digits n = (if n < 10 then [of_nat (48 + n)]
               else digits (n div 10) @ [of_nat (48 + n mod 10)])"

declare digits.simps [simp del]

fun join_comma :: "jsstr list \<Rightarrow> jsstr" where
  "join_comma [] = []"
| "join_comma [s] = s"
| "join_comma (s # t # ts) = s @ asc '','' @ join_comma (t # ts)"

text \<open>\<^verbatim>\<open>String(v)\<close>, the conversion a template literal applies to an interpolated
  value. An array is joined with commas, its \<^verbatim>\<open>null\<close> and \<^verbatim>\<open>undefined\<close>
  elements giving the empty string.\<close>

fun to_string :: "jsval \<Rightarrow> jsstr" where
  "to_string Undefined = asc ''undefined''"
| "to_string Null = asc ''null''"
| "to_string (Bool b) = (if b then asc ''true'' else asc ''false'')"
| "to_string (Num n) = (if n < 0 then asc ''-'' @ digits (nat (- n)) else digits (nat n))"
| "to_string (Str s) = s"
| "to_string (Arr xs) =
     join_comma (map (\<lambda>x. if x = Undefined \<or> x = Null then [] else to_string x) xs)"
| "to_string (Obj fs) = asc ''[object Object]''"

section \<open>Fragments\<close>

text \<open>
  Every builder returns the value of a template literal. A template literal is modelled
  as the list of its pieces: \<open>Lit\<close> is text written in the module itself (the static
  text of a template, and the two constant fragments \<^verbatim>\<open>placeholder\<close> and the bot
  badge), \<open>Val\<close> is the string of an interpolated JavaScript value. A variable that
  holds a fragment built by the module is spliced in. \<open>render\<close> gives the string the
  JavaScript code returns. The two kinds of pieces keep apart what a builder wrote and
  what an input value brought along: that a cell contains a link or the bot badge is a
  statement about its \<open>Lit\<close> pieces.
\<close>

datatype piece = Lit jsstr | Val jsstr

type_synonym frag = "piece list"

fun piece_text :: "piece \<Rightarrow> jsstr" where
  "piece_text (Lit s) = s"
| "piece_text (Val s) = s"

definition render :: "frag \<Rightarrow> jsstr" where
  "render f = concat (map piece_text f)"

text \<open>The string constants of the module. The Cyrillic words are given by their code
  units: \<open>dash\<close> is the em dash U+2014, \<open>ru_bot\<close> reads "Bot", \<open>ru_avatar\<close>
  "Avatar", \<open>ru_untitled_chat\<close> "Chat bez nazvaniya" (chat without a title),
  \<open>ru_unknown_sender\<close> "Neizvestnyi otpravitel" (unknown sender), \<open>ru_no_text\<close>
  "Bez teksta" (without text), \<open>ru_author_unknown\<close> "Avtor neizvesten",
  \<open>ru_attachments_abbr\<close> " vlozh." (attachments, abbreviated), \<open>ru_no_attachments\<close>
  "Bez vlozhenii", \<open>ru_reply_caption\<close> "Otvet na predydushchee soobshchenie" (reply to
  the previous message), \<open>ru_author_not_given\<close> "Avtor ne ukazan".\<close>

definition dash :: jsstr where
  "dash = [0x2014]"

definition ru_bot :: jsstr where
  "ru_bot = [0x0411, 0x043E, 0x0442]"

definition ru_avatar :: jsstr where
  "ru_avatar = [0x0410, 0x0432, 0x0430, 0x0442, 0x0430, 0x0440]"

definition ru_untitled_chat :: jsstr where
  "ru_untitled_chat = [0x0427, 0x0430, 0x0442] @ asc '' '' @ [0x0431, 0x0435, 0x0437] @ asc '' ''
     @ [0x043D, 0x0430, 0x0437, 0x0432, 0x0430, 0x043D, 0x0438, 0x044F]"

definition ru_unknown_sender :: jsstr where
  "ru_unknown_sender =
     [0x041D, 0x0435, 0x0438, 0x0437, 0x0432, 0x0435, 0x0441, 0x0442, 0x043D, 0x044B, 0x0439]
     @ asc '' ''
     @ [0x043E, 0x0442, 0x043F, 0x0440, 0x0430, 0x0432, 0x0438, 0x0442, 0x0435, 0x043B, 0x044C]"

definition ru_no_text :: jsstr where
  "ru_no_text = [0x0411, 0x0435, 0x0437] @ asc '' ''
     @ [0x0442, 0x0435, 0x043A, 0x0441, 0x0442, 0x0430]"

definition ru_author_unknown :: jsstr where
  "ru_author_unknown = [0x0410, 0x0432, 0x0442, 0x043E, 0x0440] @ asc '' ''
     @ [0x043D, 0x0435, 0x0438, 0x0437, 0x0432, 0x0435, 0x0441, 0x0442, 0x0435, 0x043D]"

definition ru_attachments_abbr :: jsstr where
  "ru_attachments_abbr = asc '' '' @ [0x0432, 0x043B, 0x043E, 0x0436] @ asc ''.''"

definition ru_no_attachments :: jsstr where
  "ru_no_attachments = [0x0411, 0x0435, 0x0437] @ asc '' ''
     @ [0x0432, 0x043B, 0x043E, 0x0436, 0x0435, 0x043D, 0x0438, 0x0439]"

definition ru_reply_caption :: jsstr where
  "ru_reply_caption = [0x041E, 0x0442, 0x0432, 0x0435, 0x0442] @ asc '' '' @ [0x043D, 0x0430]
     @ asc '' ''
     @ [0x043F, 0x0440, 0x0435, 0x0434, 0x044B, 0x0434, 0x0443, 0x0449, 0x0435, 0x0435]
     @ asc '' ''
     @ [0x0441, 0x043E, 0x043E, 0x0431, 0x0449, 0x0435, 0x043D, 0x0438, 0x0435]"

definition ru_author_not_given :: jsstr where
  "ru_author_not_given = [0x0410, 0x0432, 0x0442, 0x043E, 0x0440] @ asc '' '' @ [0x043D, 0x0435]
     @ asc '' '' @ [0x0443, 0x043A, 0x0430, 0x0437, 0x0430, 0x043D]"

text \<open>\<^verbatim>\<open>const placeholder = '<span class="text-secondary">...</span>'\<close> with the em
  dash inside, and the bot badge \<^verbatim>\<open>'<span class="sender-badge">...</span>'\<close> that
  \<^verbatim>\<open>buildSenderCell\<close> and \<^verbatim>\<open>buildReplyPreview\<close> both write out.\<close>

definition placeholder_html :: jsstr where
  \<open>placeholder_html = asc ''<span class="text-secondary">'' @ dash @ asc ''</span>''\<close>

definition placeholder :: frag where
  "placeholder = [Lit placeholder_html]"

definition bot_badge_html :: jsstr where
  \<open>bot_badge_html = asc ''<span class="sender-badge">'' @ ru_bot @ asc ''</span>''\<close>

section \<open>The data model\<close>

text \<open>
  A message and a reply are objects; each field holds a JavaScript value, and an absent
  field reads as \<open>Undefined\<close>. The field \<^verbatim>\<open>id\<close> is \<open>msg_id\<close> and
  \<^verbatim>\<open>text\<close> is \<open>msg_text\<close>; the fields of a reply carry the prefix
  \<open>reply_\<close>. The reply of a message is \<open>None\<close> when the field is absent,
  \<^verbatim>\<open>null\<close> or any other value that \<^verbatim>\<open>!reply\<close> accepts, and \<open>Some r\<close> when
  it is an object.
\<close>

record reply =
  reply_id :: jsval
  reply_text :: jsval
  reply_from_id :: jsval
  reply_from_name :: jsval
  reply_from_avatar :: jsval
  reply_is_bot :: jsval
  reply_attachments :: jsval

record message =
  msg_id :: jsval
  message_id :: jsval
  peer_id :: jsval
  peer_title :: jsval
  peer_avatar :: jsval
  from_id :: jsval
  from_name :: jsval
  from_avatar :: jsval
  is_bot :: jsval
  msg_text :: jsval
  created_at :: jsval
  is_deleted :: jsval
  attachments :: jsval
  copy_history :: jsval
  reply :: "reply option"

text \<open>The \<^verbatim>\<open>options\<close> argument of the builders; \<open>no_options\<close> is the default
  \<^verbatim>\<open>{}\<close>.\<close>

record options =
  allowLink :: jsval
  showBotBadge :: jsval
  mode :: jsval
  peerId :: jsval
  isNew :: jsval
  formatDate :: "(jsval \<Rightarrow> jsval) option"
  showChatColumn :: jsval
  showSenderColumn :: jsval

definition no_options :: options where
  "no_options = \<lparr> allowLink = Undefined, showBotBadge = Undefined, mode = Undefined,
     peerId = Undefined, isNew = Undefined, formatDate = None,
     showChatColumn = Undefined, showSenderColumn = Undefined \<rparr>"

section \<open>The shared builders\<close>

text \<open>These four functions are the same text in both variants of the module. Where
  \<^verbatim>\<open>buildAvatarLabel\<close> returns the label itself, the fragment is its string.\<close>

definition buildAvatarLabel :: "jsval \<Rightarrow> jsval \<Rightarrow> frag" where
  \<open>buildAvatarLabel label avatarUrl =
     (let safeLabel = js_or label (Str dash) in
      if truthy avatarUrl then
        [Lit (asc ''<span class="d-inline-flex align-items-center gap-2"><img src="''),
         Val (to_string avatarUrl),
         Lit (asc ''" alt="'' @ ru_avatar @ asc ''" class="avatar-inline" loading="lazy" /> <span>''),
         Val (to_string safeLabel),
         Lit (asc ''</span></span>'')]
      else [Val (to_string safeLabel)])\<close>

definition peer_link_open :: jsstr where
  \<open>peer_link_open = asc ''<a href="/chat/''\<close>

definition buildPeerCell :: "message \<Rightarrow> options \<Rightarrow> frag" where
  \<open>buildPeerCell message opts =
     (let chatName = js_or (peer_title message) (Str ru_untitled_chat);
          avatarUrl = peer_avatar message;
          allowLink = (allowLink opts \<noteq> Bool False);
          hasId = truthy (peer_id message)
      in if allowLink \<and> hasId then
           [Lit peer_link_open,
            Val (to_string (peer_id message)),
            Lit (asc ''" target="_blank" class="text-decoration-none text-light d-inline-flex align-items-center gap-2">'')]
           @ buildAvatarLabel chatName avatarUrl
           @ [Lit (asc ''</a>'')]
         else buildAvatarLabel chatName avatarUrl)\<close>

definition sender_wrap_open :: jsstr where
  \<open>sender_wrap_open = asc ''<div class="d-flex align-items-center gap-2 flex-wrap">''\<close>

definition sender_link_open :: jsstr where
  \<open>sender_link_open = asc ''<div class="d-flex align-items-center gap-2 flex-wrap"><a href="/user/''\<close>

definition buildSenderCell :: "message \<Rightarrow> options \<Rightarrow> frag" where
  \<open>buildSenderCell message opts =
     (let senderName = js_or (from_name message) (Str ru_unknown_sender);
          avatarUrl = from_avatar message;
          allowLink = (allowLink opts \<noteq> Bool False);
          showBotBadge = (showBotBadge opts \<noteq> Bool False);
          botBadge = (if truthy (is_bot message) \<and> showBotBadge then [Lit bot_badge_html] else []);
          baseLabel = buildAvatarLabel senderName avatarUrl;
          hasId = truthy (from_id message)
      in if allowLink \<and> hasId then
           [Lit sender_link_open,
            Val (to_string (from_id message)),
            Lit (asc ''" target="_blank" class="text-decoration-none text-light d-inline-flex align-items-center gap-2">'')]
           @ baseLabel
           @ [Lit (asc ''</a>'')]
           @ botBadge
           @ [Lit (asc ''</div>'')]
         else [Lit sender_wrap_open] @ baseLabel @ botBadge @ [Lit (asc ''</div>'')])\<close>

text \<open>\<^verbatim>\<open>reply.text.slice(0, 120)\<close>: strings and arrays have the method; on any
  other value the property is \<^verbatim>\<open>undefined\<close> and the call raises a
  \<^verbatim>\<open>TypeError\<close>.\<close>

fun slice120 :: "jsval \<Rightarrow> js_error + jsval" where
  "slice120 (Str s) = Inr (Str (take 120 s))"
| "slice120 (Arr xs) = Inr (Arr (take 120 xs))"
| "slice120 v = Inl TypeError"

text \<open>\<^verbatim>\<open>reply.text ? reply.text.slice(0, 120) : '...'\<close>, the same expression in
  both modes.\<close>

definition replyText :: "reply \<Rightarrow> js_error + jsval" where
  "replyText r = (if truthy (reply_text r) then slice120 (reply_text r) else Inr (Str ru_no_text))"

definition replyAuthorLabel :: "reply \<Rightarrow> jsval" where
  \<open>replyAuthorLabel r =
     (if truthy (reply_from_name r) then
        Str (to_string (reply_from_name r) @ asc '' (ID: ''
             @ to_string (js_coalesce (reply_from_id r) (Str dash)) @ asc '')'')
      else if truthy (reply_from_id r) then Str (asc ''ID: '' @ to_string (reply_from_id r))
      else Str ru_author_unknown)\<close>

definition replyLink :: "reply \<Rightarrow> options \<Rightarrow> frag" where
  \<open>replyLink r opts =
     (let replyId = js_coalesce (reply_id r) (Str dash);
          peerId = peerId opts
      in if truthy (reply_id r) \<and> truthy peerId then
           [Lit (asc ''<a href="https://vk.com/im?sel=''),
            Val (to_string peerId),
            Lit (asc ''&msgid=''),
            Val (to_string (reply_id r)),
            Lit (asc ''" target="_blank" rel="noopener noreferrer">#''),
            Val (to_string (reply_id r)),
            Lit (asc ''</a>'')]
         else [Lit (asc ''#''), Val (to_string replyId)])\<close>

definition replyAttachmentsLabel :: "reply \<Rightarrow> jsval" where
  "replyAttachmentsLabel r =
     (let replyAttachmentsCount =
            (case reply_attachments r of Arr xs \<Rightarrow> int (length xs) | _ \<Rightarrow> 0)
      in if replyAttachmentsCount \<noteq> 0
         then Str (to_string (Num replyAttachmentsCount) @ ru_attachments_abbr)
         else Str ru_no_attachments)"

definition is_detailed :: "options \<Rightarrow> bool" where
  "is_detailed opts = (js_or (mode opts) (Str (asc ''compact'')) = Str (asc ''detailed''))"

text \<open>The static text in front of the reply text, in the detailed and in the compact
  template.\<close>

definition detailed_text_open :: jsstr where
  \<open>detailed_text_open = asc ''</span></div><div class="text-secondary small">''\<close>

definition compact_text_open :: jsstr where
  \<open>compact_text_open =
     asc ''<div class="d-flex flex-column gap-1"><div class="text-secondary small">''
     @ ru_reply_caption @ asc ''</div><div class="text-light small">''\<close>

definition detailed_block :: "reply \<Rightarrow> options \<Rightarrow> jsval \<Rightarrow> frag" where
  \<open>detailed_block r opts text =
     [Lit (asc ''<div class="d-flex flex-column gap-1"><div class="d-flex align-items-center gap-2">'')]
     @ replyLink r opts
     @ [Lit (asc ''<span class="text-secondary small">''),
        Val (to_string (replyAttachmentsLabel r)),
        Lit detailed_text_open,
        Val (to_string text),
        Lit (asc ''</div><div class="text-secondary small">'')]
     @ buildAvatarLabel (replyAuthorLabel r) (reply_from_avatar r)
     @ [Lit (asc ''</div></div>'')]\<close>

definition compact_block :: "reply \<Rightarrow> jsval \<Rightarrow> frag" where
  \<open>compact_block r text =
     (let replyAuthorName = js_or (reply_from_name r) (Str ru_author_not_given);
          replyBotBadge = (if truthy (reply_is_bot r) then [Lit bot_badge_html] else [])
      in [Lit compact_text_open,
          Val (to_string text),
          Lit (asc ''</div><div class="d-flex align-items-center gap-2 text-secondary small">''),
          Val (to_string replyAuthorName)]
         @ replyBotBadge
         @ [Lit (asc ''</div></div>'')])\<close>

definition buildReplyPreview :: "reply option \<Rightarrow> options \<Rightarrow> js_error + frag" where
  "buildReplyPreview reply_arg opts =
     (case reply_arg of
        None \<Rightarrow> Inr placeholder
      | Some r \<Rightarrow>
          if is_detailed opts then
            if \<not> truthy (reply_id r) \<and> \<not> truthy (reply_text r) \<and> \<not> truthy (reply_from_id r)
            then Inr placeholder
            else (case replyText r of
                    Inl e \<Rightarrow> Inl e
                  | Inr text \<Rightarrow> Inr (detailed_block r opts text))
          else
            if \<not> truthy (js_or (reply_text r) (reply_from_name r))
            then Inr placeholder
            else (case replyText r of
                    Inl e \<Rightarrow> Inl e
                  | Inr text \<Rightarrow> Inr (compact_block r text)))"

section \<open>The gallery collaborator and the store\<close>

text \<open>
  Messages are objects of a store: \<open>objects w r\<close> is the object behind the reference
  \<open>r\<close>, and the references below \<open>next_ref w\<close> are the allocated ones. An object
  literal allocates the next reference. \<open>gallery w\<close> is the state of the gallery
  collaborator, which only its own registration operation changes.

  The collaborator is the optional argument \<^verbatim>\<open>galleryApi\<close> (\<open>None\<close> for
  \<^verbatim>\<open>null\<close> or \<^verbatim>\<open>undefined\<close>), and each of its four operations is
  optional. The operations are those of the consumed interface: the two extractions and
  the content cell are functions of their arguments, and registration gets the new
  object (its reference and its fields) and the key.
\<close>

type_synonym ref = nat

record 'g world =
  objects :: "ref \<Rightarrow> message"
  next_ref :: ref
  gallery :: 'g

record 'g gallery_api =
  extractAttachments :: "(message \<Rightarrow> jsval) option"
  extractCopyHistory :: "(message \<Rightarrow> jsval) option"
  registerMessageGallery :: "(ref \<Rightarrow> message \<Rightarrow> jsval \<Rightarrow> 'g \<Rightarrow> 'g) option"
  buildContentCell :: "(jsval \<Rightarrow> jsval \<Rightarrow> jsval \<Rightarrow> jsval) option"

text \<open>\<^verbatim>\<open>galleryApi?.op\<close>: the operation, if the collaborator is there and has it.\<close>

definition capability :: "('a \<Rightarrow> 'b option) \<Rightarrow> 'a option \<Rightarrow> 'b option" where
  "capability op api = (case api of None \<Rightarrow> None | Some a \<Rightarrow> op a)"

text \<open>The object literal \<^verbatim>\<open>{ ...message, attachments: a, copy_history: c }\<close>: a new
  object with the fields of \<open>m\<close>, two of them overwritten.\<close>

definition alloc :: "message \<Rightarrow> 'g world \<Rightarrow> ref \<times> 'g world" where
  "alloc m w =
     (next_ref w, w\<lparr> objects := (objects w)(next_ref w := m), next_ref := Suc (next_ref w) \<rparr>)"

text \<open>The module exists in two variants that differ from \<^verbatim>\<open>prepareGalleryContent\<close>
  on: the first builds cards (\<^verbatim>\<open>div\<close> elements), the second table rows.\<close>

datatype layout = Card | Table

record gallery_content =
  contentCell :: frag
  normalizedAttachments :: jsval
  normalizedCopyHistory :: jsval

definition contentFallback :: "layout \<Rightarrow> frag" where
  "contentFallback v = (case v of Card \<Rightarrow> [] | Table \<Rightarrow> placeholder)"

definition prepareGalleryContent ::
  "layout \<Rightarrow> ref \<Rightarrow> 'g gallery_api option \<Rightarrow> jsval \<Rightarrow> 'g world \<Rightarrow> gallery_content \<times> 'g world"
where
  "prepareGalleryContent v message galleryApi galleryKey w =
     (let normalizedAttachments =
            (case capability extractAttachments galleryApi of
               Some f \<Rightarrow> f (objects w message) | None \<Rightarrow> Arr []);
          normalizedCopyHistory =
            (case capability extractCopyHistory galleryApi of
               Some f \<Rightarrow> f (objects w message) | None \<Rightarrow> Arr []);
          w' = (case capability registerMessageGallery galleryApi of
                  Some register \<Rightarrow>
                    (let copy = (objects w message)\<lparr> attachments := normalizedAttachments,
                                                        copy_history := normalizedCopyHistory \<rparr>;
                         (r, w1) = alloc copy w
                     in w1\<lparr> gallery := register r copy galleryKey (gallery w1) \<rparr>)
                | None \<Rightarrow> w);
          contentCell =
            (case capability buildContentCell galleryApi of
               Some f \<Rightarrow> [Val (to_string (f normalizedAttachments normalizedCopyHistory galleryKey))]
             | None \<Rightarrow> contentFallback v)
      in (\<lparr> contentCell = contentCell, normalizedAttachments = normalizedAttachments,
            normalizedCopyHistory = normalizedCopyHistory \<rparr>, w'))"

text \<open>
  Modelled from the spec: the registry of the gallery collaborator, whose code is not
  part of the module. Registration is keyed by the gallery key, and registering under
  a key again replaces the entry of that key. The registry keeps the fields of the
  registered object.
\<close>

type_synonym registry = "jsval \<rightharpoonup> message"

definition registry_put :: "ref \<Rightarrow> message \<Rightarrow> jsval \<Rightarrow> registry \<Rightarrow> registry" where
  "registry_put r m k g = g(k \<mapsto> m)"

section \<open>The row builders\<close>

text \<open>The element a row builder creates: its tag, the classes added to its
  \<^verbatim>\<open>classList\<close> and the fragment assigned to \<^verbatim>\<open>innerHTML\<close>.\<close>

record element =
  tag :: string
  classList :: "string list"
  innerHTML :: frag

text \<open>\<^verbatim>\<open>options.formatDate || ((value) => value || '...')\<close> with the em dash.\<close>

definition dateFormatter :: "options \<Rightarrow> jsval \<Rightarrow> jsval" where
  "dateFormatter opts = (case formatDate opts of Some f \<Rightarrow> f | None \<Rightarrow> (\<lambda>v. js_or v (Str dash)))"

text \<open>\<^verbatim>\<open>Boolean(message.reply && (message.reply.text || message.reply.from_name ||
  message.reply.from_id))\<close>.\<close>

definition hasReply :: "message \<Rightarrow> bool" where
  "hasReply m =
     (case reply m of
        None \<Rightarrow> False
      | Some r \<Rightarrow> truthy (js_or (js_or (reply_text r) (reply_from_name r)) (reply_from_id r)))"

text \<open>\<^verbatim>\<open>(x?.length || 0) > 0\<close> for a normalized sequence \<open>x\<close>. Arrays and strings
  have a length; \<^verbatim>\<open>null\<close> and \<^verbatim>\<open>undefined\<close> stop at \<^verbatim>\<open>?.\<close>; numbers
  and booleans have none, and a data object is taken to have no field of that name.\<close>

fun has_items :: "jsval \<Rightarrow> bool" where
  "has_items (Arr xs) = (0 < length xs)"
| "has_items (Str s) = (0 < length s)"
| "has_items v = False"

definition hasAttachments :: "gallery_content \<Rightarrow> bool" where
  "hasAttachments g = (has_items (normalizedAttachments g) \<or> has_items (normalizedCopyHistory g))"

text \<open>\<^verbatim>\<open>buildAvatarLabel(message.from_name || message.peer_title, message.from_avatar
  || message.peer_avatar)\<close>, the avatar column of every card.\<close>

definition avatarColumn :: "message \<Rightarrow> frag" where
  "avatarColumn m =
     buildAvatarLabel (js_or (from_name m) (peer_title m)) (js_or (from_avatar m) (peer_avatar m))"

definition link_options :: options where
  "link_options = no_options\<lparr> allowLink := Bool True \<rparr>"

definition sender_options :: options where
  "sender_options = no_options\<lparr> allowLink := Bool True, showBotBadge := Bool True \<rparr>"

definition compact_options :: options where
  "compact_options = no_options\<lparr> mode := Str (asc ''compact'') \<rparr>"

definition detailed_options :: "jsval \<Rightarrow> options" where
  "detailed_options peer = no_options\<lparr> mode := Str (asc ''detailed''), peerId := peer \<rparr>"

text \<open>The classes a builder adds, in the order of its \<^verbatim>\<open>classList.add\<close> calls.\<close>

definition rowClasses :: "string list \<Rightarrow> bool \<Rightarrow> message \<Rightarrow> string list" where
  "rowClasses base new m =
     base @ (if new then [''message-row-new''] else [])
          @ (if truthy (is_deleted m) then [''message-deleted''] else [])"

text \<open>The text cell of the card variant, \<^verbatim>\<open>${textCell || placeholder}\<close>.\<close>

definition textOrPlaceholder :: "jsval \<Rightarrow> frag" where
  "textOrPlaceholder textCell = (if truthy textCell then [Val (to_string textCell)] else placeholder)"

definition card_text_open :: jsstr where
  \<open>card_text_open = asc ''\<newline>        <div class="chat-bubble-text">''\<close>

definition replySlot :: "bool \<Rightarrow> frag \<Rightarrow> frag" where
  \<open>replySlot shown replyCell =
     (if shown then [Lit (asc ''<div class="chat-bubble-reply">'')] @ replyCell @ [Lit (asc ''</div>'')]
      else [])\<close>

definition attachmentsSlot :: "bool \<Rightarrow> frag \<Rightarrow> frag" where
  \<open>attachmentsSlot shown cell =
     (if shown then [Lit (asc ''<div class="chat-bubble-attachments">'')] @ cell @ [Lit (asc ''</div>'')]
      else [])\<close>

text \<open>\<^verbatim>\<open>buildDashboardRow\<close> of the card variant. The reads of the message after
  the call of \<^verbatim>\<open>prepareGalleryContent\<close> go to the store that call leaves.\<close>

definition buildDashboardRow_card ::
  "ref \<Rightarrow> 'g gallery_api option \<Rightarrow> jsval \<Rightarrow> options \<Rightarrow> 'g world \<Rightarrow> js_error + element \<times> 'g world"
where
  \<open>buildDashboardRow_card message galleryApi galleryKey opts w =
     (let m = objects w message;
          classes = rowClasses [''chat-item''] (truthy (isNew opts)) m;
          createdAt = dateFormatter opts (created_at m);
          peerCell = buildPeerCell m link_options;
          authorCell = buildSenderCell m sender_options
      in case buildReplyPreview (reply m) compact_options of
           Inl e \<Rightarrow> Inl e
         | Inr replyCell \<Rightarrow>
             (let shown = hasReply m;
                  (g, w') = prepareGalleryContent Card message galleryApi galleryKey w;
                  m' = objects w' message;
                  textCell = js_coalesce (msg_text m') (Str [])
              in Inr (\<lparr> tag = ''div'', classList = classes,
                        innerHTML =
                          [Lit (asc ''\<newline>      <div class="chat-avatar-col">'')]
                          @ avatarColumn m'
                          @ [Lit (asc ''</div>\<newline>      <div class="chat-bubble">\<newline>        <div class="chat-bubble-header">\<newline>          <div class="chat-bubble-meta">'')]
                          @ peerCell
                          @ [Lit (asc ''</div>\<newline>          <div class="chat-bubble-time text-secondary">''),
                             Val (to_string createdAt),
                             Lit (asc ''</div>\<newline>        </div>\<newline>        <div class="chat-bubble-author">'')]
                          @ authorCell
                          @ [Lit (asc ''</div>\<newline>        '')]
                          @ replySlot shown replyCell
                          @ [Lit (asc ''\<newline>        '')]
                          @ attachmentsSlot (hasAttachments g) (contentCell g)
                          @ [Lit card_text_open]
                          @ textOrPlaceholder textCell
                          @ [Lit (asc ''</div>\<newline>      </div>\<newline>    '')] \<rparr>, w')))\<close>

definition table_text_open :: jsstr where
  \<open>table_text_open = asc ''</td><td>''\<close>

text \<open>\<^verbatim>\<open>buildDashboardRow\<close> of the table variant.\<close>

definition buildDashboardRow_table ::
  "ref \<Rightarrow> 'g gallery_api option \<Rightarrow> jsval \<Rightarrow> options \<Rightarrow> 'g world \<Rightarrow> js_error + element \<times> 'g world"
where
  \<open>buildDashboardRow_table message galleryApi galleryKey opts w =
     (let m = objects w message;
          classes = rowClasses [] (truthy (isNew opts)) m;
          createdAt = dateFormatter opts (created_at m);
          peerCell = buildPeerCell m link_options;
          authorCell = buildSenderCell m sender_options
      in case buildReplyPreview (reply m) compact_options of
           Inl e \<Rightarrow> Inl e
         | Inr replyCell \<Rightarrow>
             (let (g, w') = prepareGalleryContent Table message galleryApi galleryKey w;
                  m' = objects w' message;
                  textCell = js_coalesce (msg_text m') (Str [])
              in Inr (\<lparr> tag = ''tr'', classList = classes,
                        innerHTML =
                          [Lit (asc ''<td class="text-secondary small text-nowrap">''),
                           Val (to_string createdAt),
                           Lit (asc ''</td><td class="text-nowrap">'')]
                          @ peerCell
                          @ [Lit (asc ''</td><td class="text-nowrap">'')]
                          @ authorCell
                          @ [Lit (asc ''</td><td>'')]
                          @ replyCell
                          @ [Lit (asc ''</td><td>'')]
                          @ contentCell g
                          @ [Lit table_text_open,
                             Val (to_string textCell),
                             Lit (asc ''</td>'')] \<rparr>, w')))\<close>

definition buildDashboardRow ::
  "layout \<Rightarrow> ref \<Rightarrow> 'g gallery_api option \<Rightarrow> jsval \<Rightarrow> options \<Rightarrow> 'g world
     \<Rightarrow> js_error + element \<times> 'g world"
where
  "buildDashboardRow v = (case v of Card \<Rightarrow> buildDashboardRow_card | Table \<Rightarrow> buildDashboardRow_table)"

text \<open>The delete button of a log row,
  \<^verbatim>\<open><button ... data-log-id="${log.id}">...</button>\<close>; its caption reads "Udalit"
  (delete).\<close>

definition deleteButton :: "message \<Rightarrow> frag" where
  \<open>deleteButton log =
     [Lit (asc ''<button type="button" class="btn btn-sm btn-outline-danger delete-log-btn" data-log-id="''),
      Val (to_string (msg_id log)),
      Lit (asc ''">'' @ [0x0423, 0x0434, 0x0430, 0x043B, 0x0438, 0x0442, 0x044C] @ asc ''</button>'')]\<close>

text \<open>\<^verbatim>\<open>log.is_bot ? '...' : '...'\<close>, the words "Da" (yes) and "Net" (no).\<close>

definition botFlagText :: "message \<Rightarrow> jsval" where
  "botFlagText log = (if truthy (is_bot log) then Str [0x0414, 0x0430] else Str [0x041D, 0x0435, 0x0442])"

text \<open>\<^verbatim>\<open>buildLogsRow\<close> of the card variant. In the static text, "Bot: " and
  "Zapis: " (record) are Cyrillic.\<close>

definition buildLogsRow_card ::
  "ref \<Rightarrow> 'g gallery_api option \<Rightarrow> jsval \<Rightarrow> options \<Rightarrow> 'g world \<Rightarrow> js_error + element \<times> 'g world"
where
  \<open>buildLogsRow_card log galleryApi galleryKey opts w =
     (let m = objects w log;
          classes = rowClasses [''chat-item''] False m;
          createdAt = dateFormatter opts (created_at m);
          peerCell = buildPeerCell m link_options;
          authorCell = buildSenderCell m sender_options;
          botBadge = botFlagText m
      in case buildReplyPreview (reply m) (detailed_options (peer_id m)) of
           Inl e \<Rightarrow> Inl e
         | Inr replyCell \<Rightarrow>
             (let shown = hasReply m;
                  (g, w') = prepareGalleryContent Card log galleryApi galleryKey w;
                  m' = objects w' log;
                  textCell = js_coalesce (msg_text m') (Str []);
                  messageIdCell = js_coalesce (message_id m') (Str dash);
                  logIdCell = js_coalesce (msg_id m') (Str dash)
              in Inr (\<lparr> tag = ''div'', classList = classes,
                        innerHTML =
                          [Lit (asc ''\<newline>      <div class="chat-avatar-col">'')]
                          @ avatarColumn m'
                          @ [Lit (asc ''</div>\<newline>      <div class="chat-bubble"> \<newline>        <div class="chat-bubble-header">\<newline>          <div class="chat-bubble-meta">'')]
                          @ peerCell
                          @ [Lit (asc ''</div>\<newline>          <div class="chat-bubble-time text-secondary">''),
                             Val (to_string createdAt),
                             Lit (asc ''</div>\<newline>        </div>\<newline>        <div class="chat-bubble-author">'')]
                          @ authorCell
                          @ [Lit (asc ''</div>\<newline>        <div class="chat-bubble-flags">'' @ ru_bot @ asc '': ''),
                             Val (to_string botBadge),
                             Lit (asc ''</div>\<newline>        '')]
                          @ replySlot shown replyCell
                          @ [Lit (asc ''\<newline>        '')]
                          @ attachmentsSlot (hasAttachments g) (contentCell g)
                          @ [Lit card_text_open]
                          @ textOrPlaceholder textCell
                          @ [Lit (asc ''</div>\<newline>        <div class="chat-bubble-footer">\<newline>          <span class="badge bg-dark">VK ID: ''),
                             Val (to_string messageIdCell),
                             Lit (asc ''</span>\<newline>          <span class="badge bg-secondary">''
                                  @ [0x0417, 0x0430, 0x043F, 0x0438, 0x0441, 0x044C] @ asc '': ''),
                             Val (to_string logIdCell),
                             Lit (asc ''</span> \<newline>          '')]
                          @ deleteButton m'
                          @ [Lit (asc '' \<newline>        </div> \<newline>      </div>\<newline>    '')] \<rparr>, w')))\<close>

text \<open>\<^verbatim>\<open>buildLogsRow\<close> of the table variant.\<close>

definition buildLogsRow_table ::
  "ref \<Rightarrow> 'g gallery_api option \<Rightarrow> jsval \<Rightarrow> options \<Rightarrow> 'g world \<Rightarrow> js_error + element \<times> 'g world"
where
  \<open>buildLogsRow_table log galleryApi galleryKey opts w =
     (let m = objects w log;
          classes = rowClasses [] False m;
          createdAt = dateFormatter opts (created_at m);
          peerCell = buildPeerCell m link_options;
          authorCell = buildSenderCell m sender_options;
          botBadge = botFlagText m
      in case buildReplyPreview (reply m) (detailed_options (peer_id m)) of
           Inl e \<Rightarrow> Inl e
         | Inr replyCell \<Rightarrow>
             (let (g, w') = prepareGalleryContent Table log galleryApi galleryKey w;
                  m' = objects w' log;
                  textCell = js_coalesce (msg_text m') (Str []);
                  messageIdCell = js_coalesce (message_id m') (Str dash);
                  logIdCell = js_coalesce (msg_id m') (Str dash)
              in Inr (\<lparr> tag = ''tr'', classList = classes,
                        innerHTML =
                          [Lit (asc ''<td class="text-nowrap">''),
                           Val (to_string createdAt),
                           Lit (asc ''</td><td class="text-nowrap">'')]
                          @ peerCell
                          @ [Lit (asc ''</td><td class="text-nowrap">'')]
                          @ authorCell
                          @ [Lit (asc ''</td><td class="text-nowrap">''),
                             Val (to_string botBadge),
                             Lit (asc ''</td><td>'')]
                          @ replyCell
                          @ [Lit (asc ''</td><td>'')]
                          @ contentCell g
                          @ [Lit table_text_open,
                             Val (to_string textCell),
                             Lit (asc ''</td><td class="text-nowrap">''),
                             Val (to_string messageIdCell),
                             Lit (asc ''</td><td class="text-nowrap">''),
                             Val (to_string logIdCell),
                             Lit (asc ''</td><td>'')]
                          @ deleteButton m'
                          @ [Lit (asc ''</td>'')] \<rparr>, w')))\<close>

definition buildLogsRow ::
  "layout \<Rightarrow> ref \<Rightarrow> 'g gallery_api option \<Rightarrow> jsval \<Rightarrow> options \<Rightarrow> 'g world
     \<Rightarrow> js_error + element \<times> 'g world"
where
  "buildLogsRow v = (case v of Card \<Rightarrow> buildLogsRow_card | Table \<Rightarrow> buildLogsRow_table)"

text \<open>\<^verbatim>\<open>Array.prototype.join\<close> on a list of fragments.\<close>

fun join_frags :: "frag \<Rightarrow> frag list \<Rightarrow> frag" where
  "join_frags sep [] = []"
| "join_frags sep [x] = x"
| "join_frags sep (x # y # ys) = x @ sep @ join_frags sep (y # ys)"

text \<open>\<^verbatim>\<open>buildEntityRow\<close> of the card variant; it builds no reply preview. The
  chunks of the header are joined with a middle dot (U+00B7) between two spaces.\<close>

definition buildEntityRow_card ::
  "ref \<Rightarrow> 'g gallery_api option \<Rightarrow> jsval \<Rightarrow> options \<Rightarrow> 'g world \<Rightarrow> element \<times> 'g world"
where
  \<open>buildEntityRow_card message galleryApi galleryKey opts w =
     (let m = objects w message;
          classes = rowClasses [''chat-item''] False m;
          showChatColumn = truthy (showChatColumn opts);
          showSenderColumn = truthy (showSenderColumn opts);
          createdAtCell = dateFormatter opts (created_at m);
          peerCell = buildPeerCell m link_options;
          authorCell = buildSenderCell m sender_options;
          (g, w') = prepareGalleryContent Card message galleryApi galleryKey w;
          m' = objects w' message;
          textCell = js_coalesce (msg_text m') (Str dash);
          metaChunks =
            [[Lit (asc ''<span class="chat-bubble-time text-secondary">''),
              Val (to_string createdAtCell),
              Lit (asc ''</span>'')]]
            @ (if showChatColumn
               then [[Lit (asc ''<span class="chat-bubble-meta">'')] @ peerCell @ [Lit (asc ''</span>'')]]
               else [])
            @ (if showSenderColumn
               then [[Lit (asc ''<span class="chat-bubble-author">'')] @ authorCell @ [Lit (asc ''</span>'')]]
               else [])
      in (\<lparr> tag = ''div'', classList = classes,
            innerHTML =
              [Lit (asc ''\<newline>      <div class="chat-avatar-col">'')]
              @ avatarColumn m'
              @ [Lit (asc ''</div>\<newline>      <div class="chat-bubble">\<newline>        <div class="chat-bubble-header">'')]
              @ join_frags [Lit (asc '' '' @ [0x00B7] @ asc '' '')] metaChunks
              @ [Lit (asc ''</div>\<newline>        '')]
              @ attachmentsSlot (hasAttachments g) (contentCell g)
              @ [Lit card_text_open,
                 Val (to_string textCell),
                 Lit (asc ''</div>\<newline>      </div>\<newline>    '')] \<rparr>, w'))\<close>

definition entity_text_open :: jsstr where
  \<open>entity_text_open = asc ''<td>''\<close>

text \<open>\<^verbatim>\<open>buildEntityRow\<close> of the table variant; the cells are joined with the empty
  string.\<close>

definition buildEntityRow_table ::
  "ref \<Rightarrow> 'g gallery_api option \<Rightarrow> jsval \<Rightarrow> options \<Rightarrow> 'g world \<Rightarrow> element \<times> 'g world"
where
  \<open>buildEntityRow_table message galleryApi galleryKey opts w =
     (let m = objects w message;
          classes = rowClasses [] False m;
          showChatColumn = truthy (showChatColumn opts);
          showSenderColumn = truthy (showSenderColumn opts);
          createdAtCell = dateFormatter opts (created_at m);
          peerCell = buildPeerCell m link_options;
          authorCell = buildSenderCell m sender_options;
          (g, w') = prepareGalleryContent Table message galleryApi galleryKey w;
          m' = objects w' message;
          textCell = js_coalesce (msg_text m') (Str dash);
          cells =
            [[Lit (asc ''<td class="text-nowrap">''), Val (to_string createdAtCell), Lit (asc ''</td>'')]]
            @ (if showChatColumn
               then [[Lit (asc ''<td class="text-nowrap">'')] @ peerCell @ [Lit (asc ''</td>'')]]
               else [])
            @ (if showSenderColumn
               then [[Lit (asc ''<td class="text-nowrap">'')] @ authorCell @ [Lit (asc ''</td>'')]]
               else [])
            @ [[Lit (asc ''<td>'')] @ contentCell g @ [Lit (asc ''</td>'')]]
            @ [[Lit entity_text_open, Val (to_string textCell), Lit (asc ''</td>'')]]
      in (\<lparr> tag = ''tr'', classList = classes, innerHTML = join_frags [] cells \<rparr>, w'))\<close>

definition buildEntityRow ::
  "layout \<Rightarrow> ref \<Rightarrow> 'g gallery_api option \<Rightarrow> jsval \<Rightarrow> options \<Rightarrow> 'g world \<Rightarrow> element \<times> 'g world"
where
  "buildEntityRow v = (case v of Card \<Rightarrow> buildEntityRow_card | Table \<Rightarrow> buildEntityRow_table)"

section \<open>Notions the properties are stated with\<close>

text \<open>The values on which \<^verbatim>\<open>reply.text ? reply.text.slice(0, 120) : ...\<close> does not
  raise: those that are not truthy, strings and arrays.\<close>

fun sliceable :: "jsval \<Rightarrow> bool" where
  "sliceable (Str s) = True"
| "sliceable (Arr xs) = True"
| "sliceable v = (\<not> truthy v)"

definition reply_text_ok :: "reply option \<Rightarrow> bool" where
  "reply_text_ok rp = (case rp of None \<Rightarrow> True | Some r \<Rightarrow> sliceable (reply_text r))"








text \<open>Two messages that agree on every field other than \<^verbatim>\<open>attachments\<close> and
  \<^verbatim>\<open>copy_history\<close>.\<close>

definition same_other_fields :: "message \<Rightarrow> message \<Rightarrow> bool" where
  "same_other_fields m c =
     (msg_id c = msg_id m \<and> message_id c = message_id m \<and> peer_id c = peer_id m
      \<and> peer_title c = peer_title m \<and> peer_avatar c = peer_avatar m \<and> from_id c = from_id m
      \<and> from_name c = from_name m \<and> from_avatar c = from_avatar m \<and> is_bot c = is_bot m
      \<and> msg_text c = msg_text m \<and> created_at c = created_at m \<and> is_deleted c = is_deleted m
      \<and> reply c = reply m)"

section \<open>Example inputs\<close>


definition empty_message :: message where
  "empty_message = \<lparr> msg_id = Undefined, message_id = Undefined, peer_id = Undefined,
     peer_title = Undefined, peer_avatar = Undefined, from_id = Undefined, from_name = Undefined,
     from_avatar = Undefined, is_bot = Undefined, msg_text = Undefined, created_at = Undefined,
     is_deleted = Undefined, attachments = Undefined, copy_history = Undefined, reply = None \<rparr>"

definition single_world :: "message \<Rightarrow> 'g \<Rightarrow> 'g world" where
  "single_world m g = \<lparr> objects = (\<lambda>r. m), next_ref = 1, gallery = g \<rparr>"

text \<open>The message of the end-to-end example of the specification, with the text
  \<^verbatim>\<open>null\<close>.\<close>

definition spec_message :: message where
  "spec_message = empty_message\<lparr> peer_title := Str (asc ''Team''), peer_id := Num 5,
     from_name := Str (asc ''Bot1''), from_id := Num 9, is_bot := Bool True, msg_text := Null,
     created_at := Str (asc ''2024-01-01''), reply := None \<rparr>"

text \<open>A collaborator without any operation, and one with all four: it takes the
  sequences of the message as they are (or the empty array), registers in the registry
  modelled above and renders the key as the content cell.\<close>

definition bare_api :: "'g gallery_api" where
  "bare_api = \<lparr> extractAttachments = None, extractCopyHistory = None,
     registerMessageGallery = None, buildContentCell = None \<rparr>"

definition registry_api :: "registry gallery_api" where
  "registry_api = \<lparr> extractAttachments = Some (\<lambda>m. js_or (attachments m) (Arr [])),
     extractCopyHistory = Some (\<lambda>m. js_or (copy_history m) (Arr [])),
     registerMessageGallery = Some registry_put,
     buildContentCell = Some (\<lambda>a c k. k) \<rparr>"

section \<open>Facts about the constants and the reply text\<close>

lemmas str_defs = asc_def dash_def ru_bot_def ru_avatar_def placeholder_html_def bot_badge_html_def
  peer_link_open_def sender_wrap_open_def sender_link_open_def detailed_text_open_def
  compact_text_open_def ru_reply_caption_def

lemma replyText_cases:
  "replyText r =
     (if sliceable (reply_text r)
      then Inr (if truthy (reply_text r)
                then (case reply_text r of
                        Str s \<Rightarrow> Str (take 120 s) | Arr xs \<Rightarrow> Arr (take 120 xs) | v \<Rightarrow> v)
                else Str ru_no_text)
      else Inl TypeError)"
  by (cases "reply_text r") (simp_all add: replyText_def)

lemma replyText_ok: "sliceable (reply_text r) \<Longrightarrow> \<exists>t. replyText r = Inr t"
  by (simp add: replyText_cases)



lemma buildReplyPreview_ok: "reply_text_ok rp \<Longrightarrow> \<exists>f. buildReplyPreview rp opts = Inr f"
proof (cases rp)
  case None
  then show ?thesis by (simp add: buildReplyPreview_def)
next
  case (Some r)
  assume "reply_text_ok rp"
  then have "sliceable (reply_text r)" using Some by (simp add: reply_text_ok_def)
  then obtain t where "replyText r = Inr t" using replyText_ok by blast
  then show ?thesis using Some by (simp add: buildReplyPreview_def)
qed













section \<open>When the reply preview is the placeholder\<close>




section \<open>The text segment of a reply preview\<close>








section \<open>Links and badges\<close>








text \<open>The cells of the end-to-end example of the specification, as the strings the
  JavaScript code returns.\<close>

lemma render_peer_cell_example:
  \<open>render (buildPeerCell spec_message no_options) =
     asc ''<a href="/chat/5" target="_blank" class="text-decoration-none text-light d-inline-flex align-items-center gap-2">Team</a>''\<close>
  by (simp add: buildPeerCell_def buildAvatarLabel_def spec_message_def empty_message_def
        no_options_def js_or_def render_def digits.simps str_defs)

lemma render_sender_cell_example:
  \<open>render (buildSenderCell spec_message no_options) =
     asc ''<div class="d-flex align-items-center gap-2 flex-wrap"><a href="/user/9" target="_blank" class="text-decoration-none text-light d-inline-flex align-items-center gap-2">Bot1</a><span class="sender-badge">''
     @ ru_bot @ asc ''</span></div>''\<close>
  by (simp add: buildSenderCell_def buildAvatarLabel_def spec_message_def empty_message_def
        no_options_def js_or_def render_def digits.simps str_defs)








section \<open>The gallery content\<close>

lemma prepareGalleryContent_fst:
  "fst (prepareGalleryContent v message api key w) =
     \<lparr> contentCell =
         (case capability buildContentCell api of
            Some f \<Rightarrow>
              [Val (to_string
                 (f (case capability extractAttachments api of
                       Some e \<Rightarrow> e (objects w message) | None \<Rightarrow> Arr [])
                    (case capability extractCopyHistory api of
                       Some e \<Rightarrow> e (objects w message) | None \<Rightarrow> Arr [])
                    key))]
          | None \<Rightarrow> contentFallback v),
       normalizedAttachments =
         (case capability extractAttachments api of
            Some e \<Rightarrow> e (objects w message) | None \<Rightarrow> Arr []),
       normalizedCopyHistory =
         (case capability extractCopyHistory api of
            Some e \<Rightarrow> e (objects w message) | None \<Rightarrow> Arr []) \<rparr>"
  by (simp add: prepareGalleryContent_def Let_def)

lemma prepareGalleryContent_snd:
  "snd (prepareGalleryContent v message api key w) =
     (case capability registerMessageGallery api of
        None \<Rightarrow> w
      | Some register \<Rightarrow>
          w\<lparr> objects := (objects w)
                 (next_ref w := (objects w message)
                    \<lparr> attachments := normalizedAttachments (fst (prepareGalleryContent v message api key w)),
                      copy_history := normalizedCopyHistory (fst (prepareGalleryContent v message api key w)) \<rparr>),
             next_ref := Suc (next_ref w),
             gallery := register (next_ref w)
                 ((objects w message)
                    \<lparr> attachments := normalizedAttachments (fst (prepareGalleryContent v message api key w)),
                      copy_history := normalizedCopyHistory (fst (prepareGalleryContent v message api key w)) \<rparr>)
                 key (gallery w) \<rparr>)"
  by (simp add: prepareGalleryContent_def Let_def alloc_def split: option.splits)

lemma prepareGalleryContent_frame:
  "r < next_ref w \<Longrightarrow> objects (snd (prepareGalleryContent v message api key w)) r = objects w r"
  by (simp add: prepareGalleryContent_snd split: option.splits)

text \<open>
  C7: when the collaborator lacks the attachment extraction or the copy-history
  extraction, the normalized sequence is the empty array; without a registration
  operation nothing is registered and the store is as before, and with one it is called
  once, with the new object and the key; when the collaborator lacks
  \<^verbatim>\<open>buildContentCell\<close>, the content fragment is the empty string in the card variant
  and the placeholder in the table variant.
\<close>

theorem prepareGalleryContent_capabilities:
  "prepareGalleryContent v message api key w = (g, w') \<Longrightarrow>
     (capability extractAttachments api = None \<longrightarrow> normalizedAttachments g = Arr [])
   \<and> (capability extractCopyHistory api = None \<longrightarrow> normalizedCopyHistory g = Arr [])
   \<and> (\<forall>f. capability extractAttachments api = Some f
          \<longrightarrow> normalizedAttachments g = f (objects w message))
   \<and> (\<forall>f. capability extractCopyHistory api = Some f
          \<longrightarrow> normalizedCopyHistory g = f (objects w message))
   \<and> (capability registerMessageGallery api = None \<longrightarrow> w' = w)
   \<and> (\<forall>register. capability registerMessageGallery api = Some register \<longrightarrow>
          gallery w' = register (next_ref w) (objects w' (next_ref w)) key (gallery w))
   \<and> (capability buildContentCell api = None \<longrightarrow>
          contentCell g = (case v of Card \<Rightarrow> [] | Table \<Rightarrow> placeholder)
          \<and> render (contentCell g) = (case v of Card \<Rightarrow> [] | Table \<Rightarrow> placeholder_html))
   \<and> (\<forall>f. capability buildContentCell api = Some f \<longrightarrow>
          contentCell g
            = [Val (to_string (f (normalizedAttachments g) (normalizedCopyHistory g) key))])"
proof -
  assume a: "prepareGalleryContent v message api key w = (g, w')"
  have g: "g = fst (prepareGalleryContent v message api key w)" using a by simp
  have w': "w' = snd (prepareGalleryContent v message api key w)" using a by simp
  show ?thesis
    unfolding g w'
    by (auto simp add: prepareGalleryContent_fst prepareGalleryContent_snd contentFallback_def
          render_def placeholder_def split: layout.splits)
qed

theorem prepareGalleryContent_capabilities_witness:
  "capability extractAttachments (Some (bare_api :: unit gallery_api)) = None
   \<and> prepareGalleryContent Card 0 (Some bare_api) (Str (asc ''k'')) (single_world empty_message ())
       = (\<lparr> contentCell = [], normalizedAttachments = Arr [], normalizedCopyHistory = Arr [] \<rparr>,
          single_world empty_message ())
   \<and> prepareGalleryContent Table 0 None (Str (asc ''k'')) (single_world empty_message ())
       = (\<lparr> contentCell = placeholder, normalizedAttachments = Arr [],
            normalizedCopyHistory = Arr [] \<rparr>,
          single_world empty_message ())
   \<and> gallery (snd (prepareGalleryContent Card 0 (Some registry_api) (Str (asc ''k''))
                      (single_world empty_message Map.empty)))
       = [Str (asc ''k'') \<mapsto> empty_message\<lparr> attachments := Arr [], copy_history := Arr [] \<rparr>]"
proof -
  let ?k = "Str (asc ''k'')"
  let ?w = "single_world empty_message ()"
  have none: "capability extractAttachments (Some (bare_api :: unit gallery_api)) = None"
      "capability extractCopyHistory (Some (bare_api :: unit gallery_api)) = None"
      "capability registerMessageGallery (Some (bare_api :: unit gallery_api)) = None"
      "capability buildContentCell (Some (bare_api :: unit gallery_api)) = None"
      "capability extractAttachments (None :: unit gallery_api option) = None"
      "capability extractCopyHistory (None :: unit gallery_api option) = None"
      "capability registerMessageGallery (None :: unit gallery_api option) = None"
      "capability buildContentCell (None :: unit gallery_api option) = None"
    by (simp_all add: capability_def bare_api_def)
  have reg: "capability registerMessageGallery (Some registry_api) = Some registry_put"
      "capability extractAttachments (Some registry_api)
         = Some (\<lambda>m. js_or (attachments m) (Arr []))"
      "capability extractCopyHistory (Some registry_api)
         = Some (\<lambda>m. js_or (copy_history m) (Arr []))"
    by (simp_all add: capability_def registry_api_def)
  have card: "prepareGalleryContent Card 0 (Some bare_api) ?k ?w
       = (\<lparr> contentCell = [], normalizedAttachments = Arr [], normalizedCopyHistory = Arr [] \<rparr>, ?w)"
    using prepareGalleryContent_capabilities
      [where v = Card and message = 0 and api = "Some bare_api" and key = ?k and w = ?w,
       OF surjective_pairing] none
    by (simp add: prod_eq_iff gallery_content.equality)
  have table: "prepareGalleryContent Table 0 None ?k ?w
       = (\<lparr> contentCell = placeholder, normalizedAttachments = Arr [],
            normalizedCopyHistory = Arr [] \<rparr>, ?w)"
    using prepareGalleryContent_capabilities
      [where v = Table and message = 0 and api = None and key = ?k and w = ?w,
       OF surjective_pairing] none
    by (simp add: prod_eq_iff gallery_content.equality)
  have registered:
    "gallery (snd (prepareGalleryContent Card 0 (Some registry_api) ?k
                     (single_world empty_message Map.empty)))
       = [?k \<mapsto> empty_message\<lparr> attachments := Arr [], copy_history := Arr [] \<rparr>]"
    using prepareGalleryContent_capabilities
      [where v = Card and message = 0 and api = "Some registry_api" and key = ?k
         and w = "single_world empty_message Map.empty", OF surjective_pairing] reg
    by (simp add: prepareGalleryContent_snd prepareGalleryContent_fst registry_put_def
          single_world_def empty_message_def js_or_def)
  show ?thesis using none(1) card table registered by blast
qed

section \<open>Idempotence of the preparation\<close>

text \<open>
  C8: calling \<^verbatim>\<open>prepareGalleryContent\<close> twice with the same message and key gives the
  same content fragment and the same normalized sequences. With the registry modelled
  from the specification, the second registration replaces the entry of the first: the
  registry after the second call is the registry after the first, which is the registry
  before with the one entry of the key set.
\<close>

theorem prepareGalleryContent_twice:
  "message < next_ref w \<Longrightarrow>
   prepareGalleryContent v message api key w = (g1, w1) \<Longrightarrow>
   prepareGalleryContent v message api key w1 = (g2, w2) \<Longrightarrow>
     contentCell g2 = contentCell g1 \<and> g2 = g1
   \<and> (capability registerMessageGallery api = Some registry_put \<longrightarrow>
        gallery w2 = gallery w1
        \<and> gallery w1 = (gallery w)
             (key \<mapsto> (objects w message)\<lparr> attachments := normalizedAttachments g1,
                                            copy_history := normalizedCopyHistory g1 \<rparr>))
   \<and> (capability registerMessageGallery api = None \<longrightarrow> gallery w2 = gallery w)"
proof -
  assume valid: "message < next_ref w"
    and first: "prepareGalleryContent v message api key w = (g1, w1)"
    and second: "prepareGalleryContent v message api key w1 = (g2, w2)"
  have g1: "g1 = fst (prepareGalleryContent v message api key w)" using first by simp
  have w1: "w1 = snd (prepareGalleryContent v message api key w)" using first by simp
  have g2: "g2 = fst (prepareGalleryContent v message api key w1)" using second by simp
  have w2: "w2 = snd (prepareGalleryContent v message api key w1)" using second by simp
  have same: "objects w1 message = objects w message"
    unfolding w1 using valid by (rule prepareGalleryContent_frame)
  have eq: "g2 = g1"
    unfolding g1 g2 by (simp add: prepareGalleryContent_fst same cong: option.case_cong)
  have reg: "capability registerMessageGallery api = Some registry_put \<Longrightarrow>
        gallery w2 = gallery w1
        \<and> gallery w1 = (gallery w)
             (key \<mapsto> (objects w message)\<lparr> attachments := normalizedAttachments g1,
                                            copy_history := normalizedCopyHistory g1 \<rparr>)"
  proof -
    assume r: "capability registerMessageGallery api = Some registry_put"
    have a: "gallery w1 = (gallery w)
             (key \<mapsto> (objects w message)\<lparr> attachments := normalizedAttachments g1,
                                            copy_history := normalizedCopyHistory g1 \<rparr>)"
      unfolding w1 g1 by (simp add: prepareGalleryContent_snd r registry_put_def)
    have b: "gallery w2 = (gallery w1)
             (key \<mapsto> (objects w1 message)\<lparr> attachments := normalizedAttachments g2,
                                             copy_history := normalizedCopyHistory g2 \<rparr>)"
      unfolding w2 g2 by (simp add: prepareGalleryContent_snd r registry_put_def)
    show ?thesis using a b by (simp add: same eq)
  qed
  have none: "capability registerMessageGallery api = None \<Longrightarrow> gallery w2 = gallery w"
    unfolding w2 w1 by (simp add: prepareGalleryContent_snd)
  show ?thesis using eq reg none by blast
qed

theorem prepareGalleryContent_twice_witness:
  "(0 :: ref) < next_ref (single_world (empty_message\<lparr> attachments := Arr [Num 1] \<rparr>)
                            (Map.empty :: registry))
   \<and> fst (prepareGalleryContent Table 0 (Some registry_api) (Str (asc ''k''))
            (snd (prepareGalleryContent Table 0 (Some registry_api) (Str (asc ''k''))
                    (single_world (empty_message\<lparr> attachments := Arr [Num 1] \<rparr>) Map.empty))))
       = fst (prepareGalleryContent Table 0 (Some registry_api) (Str (asc ''k''))
                (single_world (empty_message\<lparr> attachments := Arr [Num 1] \<rparr>) Map.empty))
   \<and> gallery (snd (prepareGalleryContent Table 0 (Some registry_api) (Str (asc ''k''))
            (snd (prepareGalleryContent Table 0 (Some registry_api) (Str (asc ''k''))
                    (single_world (empty_message\<lparr> attachments := Arr [Num 1] \<rparr>) Map.empty)))))
       = [Str (asc ''k'') \<mapsto> empty_message\<lparr> attachments := Arr [Num 1], copy_history := Arr [] \<rparr>]"
proof -
  let ?k = "Str (asc ''k'')"
  let ?w = "single_world (empty_message\<lparr> attachments := Arr [Num 1] \<rparr>) (Map.empty :: registry)"
  have valid: "(0 :: ref) < next_ref ?w" by (simp add: single_world_def)
  have reg: "capability registerMessageGallery (Some registry_api) = Some registry_put"
    by (simp add: capability_def registry_api_def)
  have first: "normalizedAttachments (fst (prepareGalleryContent Table 0 (Some registry_api) ?k ?w))
                 = Arr [Num 1]"
      "normalizedCopyHistory (fst (prepareGalleryContent Table 0 (Some registry_api) ?k ?w)) = Arr []"
    by (simp_all add: prepareGalleryContent_fst capability_def registry_api_def single_world_def
          empty_message_def js_or_def)
  have obj: "objects ?w 0 = empty_message\<lparr> attachments := Arr [Num 1] \<rparr>" "gallery ?w = Map.empty"
    by (simp_all add: single_world_def)
  let ?p1 = "prepareGalleryContent Table 0 (Some registry_api) ?k ?w"
  let ?p2 = "prepareGalleryContent Table 0 (Some registry_api) ?k (snd ?p1)"
  note twice = prepareGalleryContent_twice
      [where v = Table and message = 0 and api = "Some registry_api" and key = ?k and w = ?w,
       OF valid surjective_pairing surjective_pairing]
  from twice have same: "fst ?p2 = fst ?p1" by blast
  from twice reg have
    "gallery (snd ?p2) = gallery (snd ?p1)"
    "gallery (snd ?p1) = (gallery ?w)
       (?k \<mapsto> (objects ?w 0)\<lparr> attachments := normalizedAttachments (fst ?p1),
                                copy_history := normalizedCopyHistory (fst ?p1) \<rparr>)"
    by blast+
  then have registry:
    "gallery (snd ?p2)
       = [?k \<mapsto> empty_message\<lparr> attachments := Arr [Num 1], copy_history := Arr [] \<rparr>]"
    by (simp add: first obj)
  show ?thesis using valid same registry by blast
qed

section \<open>The rows\<close>

















lemma row_worlds:
  "buildDashboardRow v message api key opts w = Inr (el, w') \<Longrightarrow>
     w' = snd (prepareGalleryContent v message api key w)"
  "buildLogsRow v message api key opts w = Inr (el, w') \<Longrightarrow>
     w' = snd (prepareGalleryContent v message api key w)"
  "snd (buildEntityRow v message api key opts w) = snd (prepareGalleryContent v message api key w)"
  by (cases v;
      auto simp add: buildDashboardRow_def buildDashboardRow_card_def buildDashboardRow_table_def
        buildLogsRow_def buildLogsRow_card_def buildLogsRow_table_def
        buildEntityRow_def buildEntityRow_card_def buildEntityRow_table_def
        Let_def split_def split: sum.splits)+

lemma row_results:
  "buildReplyPreview (reply (objects w message)) compact_options = Inr f \<Longrightarrow>
     \<exists>el w'. buildDashboardRow v message api key opts w = Inr (el, w')"
  "buildReplyPreview (reply (objects w message))
       (detailed_options (peer_id (objects w message))) = Inr d \<Longrightarrow>
     \<exists>el w'. buildLogsRow v message api key opts w = Inr (el, w')"
  by (cases v;
      simp add: buildDashboardRow_def buildDashboardRow_card_def buildDashboardRow_table_def
        buildLogsRow_def buildLogsRow_card_def buildLogsRow_table_def Let_def split_def)+


section \<open>The input message is not changed\<close>

text \<open>
  C9: no operation changes its input message. The four shared builders get the fields of
  the message and have no store among their results. After
  \<^verbatim>\<open>prepareGalleryContent\<close> and after each row builder every object that was
  allocated before the call, the input message among them, is as before. Without a
  registration operation the store is unchanged; with one, what is registered is a new
  object at the next free reference that agrees with the message on every field other
  than \<^verbatim>\<open>attachments\<close> and \<^verbatim>\<open>copy_history\<close>, and these two hold the normalized
  sequences.
\<close>

theorem operations_keep_messages:
  "(prepareGalleryContent v message api key w = (g, w1) \<longrightarrow>
      (\<forall>r < next_ref w. objects w1 r = objects w r)
    \<and> (capability registerMessageGallery api = None \<longrightarrow> w1 = w)
    \<and> (\<forall>register. capability registerMessageGallery api = Some register \<longrightarrow>
          next_ref w1 = Suc (next_ref w)
        \<and> same_other_fields (objects w message) (objects w1 (next_ref w))
        \<and> attachments (objects w1 (next_ref w)) = normalizedAttachments g
        \<and> copy_history (objects w1 (next_ref w)) = normalizedCopyHistory g
        \<and> gallery w1 = register (next_ref w) (objects w1 (next_ref w)) key (gallery w)))
   \<and> (buildDashboardRow v message api key opts w = Inr (el2, w2) \<longrightarrow>
        (\<forall>r < next_ref w. objects w2 r = objects w r))
   \<and> (buildLogsRow v message api key opts w = Inr (el3, w3) \<longrightarrow>
        (\<forall>r < next_ref w. objects w3 r = objects w r))
   \<and> (buildEntityRow v message api key opts w = (el4, w4) \<longrightarrow>
        (\<forall>r < next_ref w. objects w4 r = objects w r))"
proof (intro conjI impI)
  assume a: "prepareGalleryContent v message api key w = (g, w1)"
  have g: "g = fst (prepareGalleryContent v message api key w)" using a by simp
  have w1: "w1 = snd (prepareGalleryContent v message api key w)" using a by simp
  show "\<forall>r < next_ref w. objects w1 r = objects w r"
    unfolding w1 by (simp add: prepareGalleryContent_frame)
  show "capability registerMessageGallery api = None \<Longrightarrow> w1 = w"
    unfolding w1 by (simp add: prepareGalleryContent_snd)
  show "\<forall>register. capability registerMessageGallery api = Some register \<longrightarrow>
          next_ref w1 = Suc (next_ref w)
        \<and> same_other_fields (objects w message) (objects w1 (next_ref w))
        \<and> attachments (objects w1 (next_ref w)) = normalizedAttachments g
        \<and> copy_history (objects w1 (next_ref w)) = normalizedCopyHistory g
        \<and> gallery w1 = register (next_ref w) (objects w1 (next_ref w)) key (gallery w)"
    unfolding w1 g by (simp add: prepareGalleryContent_snd same_other_fields_def)
next
  assume "buildDashboardRow v message api key opts w = Inr (el2, w2)"
  then have "w2 = snd (prepareGalleryContent v message api key w)" by (rule row_worlds)
  then show "\<forall>r < next_ref w. objects w2 r = objects w r"
    by (simp add: prepareGalleryContent_frame)
next
  assume "buildLogsRow v message api key opts w = Inr (el3, w3)"
  then have "w3 = snd (prepareGalleryContent v message api key w)" by (rule row_worlds)
  then show "\<forall>r < next_ref w. objects w3 r = objects w r"
    by (simp add: prepareGalleryContent_frame)
next
  assume "buildEntityRow v message api key opts w = (el4, w4)"
  then have "w4 = snd (prepareGalleryContent v message api key w)"
    using row_worlds(3) [of v message api key opts w] by simp
  then show "\<forall>r < next_ref w. objects w4 r = objects w r"
    by (simp add: prepareGalleryContent_frame)
qed

theorem operations_keep_messages_witness:
  "objects (snd (prepareGalleryContent Card 0 (Some registry_api) (Str (asc ''k''))
              (single_world (empty_message\<lparr> attachments := Arr [Num 1] \<rparr>) Map.empty))) 0
     = empty_message\<lparr> attachments := Arr [Num 1] \<rparr>
   \<and> same_other_fields (empty_message\<lparr> attachments := Arr [Num 1] \<rparr>)
        (objects (snd (prepareGalleryContent Card 0 (Some registry_api) (Str (asc ''k''))
              (single_world (empty_message\<lparr> attachments := Arr [Num 1] \<rparr>) Map.empty))) 1)
   \<and> copy_history
        (objects (snd (prepareGalleryContent Card 0 (Some registry_api) (Str (asc ''k''))
              (single_world (empty_message\<lparr> attachments := Arr [Num 1] \<rparr>) Map.empty))) 1)
       = Arr []
   \<and> objects (snd (projr (buildDashboardRow Card 0 (Some registry_api) (Str (asc ''k'')) no_options
                (single_world (empty_message\<lparr> attachments := Arr [Num 1] \<rparr>) Map.empty)))) 0
       = empty_message\<lparr> attachments := Arr [Num 1] \<rparr>
   \<and> objects (snd (projr (buildLogsRow Table 0 (Some registry_api) (Str (asc ''k'')) no_options
                (single_world (empty_message\<lparr> attachments := Arr [Num 1] \<rparr>) Map.empty)))) 0
       = empty_message\<lparr> attachments := Arr [Num 1] \<rparr>
   \<and> objects (snd (buildEntityRow Table 0 (Some registry_api) (Str (asc ''k'')) no_options
                (single_world (empty_message\<lparr> attachments := Arr [Num 1] \<rparr>) Map.empty))) 0
       = empty_message\<lparr> attachments := Arr [Num 1] \<rparr>"
proof -
  let ?k = "Str (asc ''k'')"
  let ?m = "empty_message\<lparr> attachments := Arr [Num 1] \<rparr>"
  let ?w = "single_world ?m (Map.empty :: registry)"
  let ?p = "prepareGalleryContent Card 0 (Some registry_api) ?k ?w"
  let ?d = "buildDashboardRow Card 0 (Some registry_api) ?k no_options ?w"
  let ?l = "buildLogsRow Table 0 (Some registry_api) ?k no_options ?w"
  let ?e = "buildEntityRow Table 0 (Some registry_api) ?k no_options ?w"
  have w: "objects ?w 0 = ?m" "next_ref ?w = 1" "reply ?m = None"
    by (simp_all add: single_world_def empty_message_def)
  have valid: "(0 :: ref) < next_ref ?w" by (simp add: w)
  have reg: "capability registerMessageGallery (Some registry_api) = Some registry_put"
    by (simp add: capability_def registry_api_def)
  have g: "normalizedCopyHistory (fst ?p) = Arr []"
    by (simp add: prepareGalleryContent_fst capability_def registry_api_def single_world_def
          empty_message_def js_or_def)
  have ok: "reply_text_ok (reply (objects ?w 0))" by (simp add: w reply_text_ok_def)
  obtain f where "buildReplyPreview (reply (objects ?w 0)) compact_options = Inr f"
    using buildReplyPreview_ok [OF ok] by blast
  then obtain el2 w2 where d: "?d = Inr (el2, w2)" using row_results(1) by blast
  obtain f' where "buildReplyPreview (reply (objects ?w 0))
      (detailed_options (peer_id (objects ?w 0))) = Inr f'"
    using buildReplyPreview_ok [OF ok] by blast
  then obtain el3 w3 where l: "?l = Inr (el3, w3)" using row_results(2) by blast
  note keep = operations_keep_messages
      [where message = 0 and api = "Some registry_api" and key = ?k and w = ?w
         and opts = no_options]
  have c1: "objects (snd ?p) 0 = ?m"
    using keep [where v = Card and g = "fst ?p" and ?w1.0 = "snd ?p"] valid by (simp add: w)
  have p2: "same_other_fields (objects ?w 0) (objects (snd ?p) (next_ref ?w))
        \<and> copy_history (objects (snd ?p) (next_ref ?w)) = normalizedCopyHistory (fst ?p)"
    using keep [where v = Card and g = "fst ?p" and ?w1.0 = "snd ?p"] reg by simp
  have c2: "objects (snd (projr ?d)) 0 = ?m"
    using keep [where v = Card and ?el2.0 = el2 and ?w2.0 = w2] d valid by (simp add: w)
  have c3: "objects (snd (projr ?l)) 0 = ?m"
    using keep [where v = Table and ?el3.0 = el3 and ?w3.0 = w3] l valid by (simp add: w)
  have c4: "objects (snd ?e) 0 = ?m"
    using keep [where v = Table and ?el4.0 = "fst ?e" and ?w4.0 = "snd ?e"] valid by (simp add: w)
  show ?thesis using c1 p2 c2 c3 c4 by (simp add: w g)
qed

section \<open>The text cell of a message without text\<close>




section \<open>No operation raises on a well-formed reply text\<close>




end
